theory Spec2Isabelle
  imports Complex_Main
begin

section \<open>Values, errors and small numpy helpers\<close>

text \<open>
  The module \<^verbatim>\<open>object_detection/utils/np_motion_util.py\<close> computes with numpy
  floating-point arrays. The embedding abstracts a finite float to a real number (rounding
  and overflow are not modelled) and keeps the IEEE special values as one extra element:
  a \<open>num\<close> is \<open>Some r\<close> for the finite value \<open>r\<close> and \<open>None\<close> for a value that is
  not finite (NaN or an infinity). Addition, subtraction and multiplication give a
  non-finite result as soon as one operand is non-finite; a division does so as well,
  and also when the divisor is zero. Inputs are finite, hence of type \<open>real\<close>.

  Python exceptions are values of the type \<open>error\<close>; a function that can raise
  returns \<open>error + 'a\<close> with \<open>Inl\<close> for the exception.
\<close>

datatype error = ValueError | IndexError | AttributeError | NameError

type_synonym num = "real option"

definition nadd :: "num \<Rightarrow> num \<Rightarrow> num" where
  "nadd a b = (case a of None \<Rightarrow> None | Some x \<Rightarrow> (case b of None \<Rightarrow> None | Some y \<Rightarrow> Some (x + y)))"

definition nsub :: "num \<Rightarrow> num \<Rightarrow> num" where
  "nsub a b = (case a of None \<Rightarrow> None | Some x \<Rightarrow> (case b of None \<Rightarrow> None | Some y \<Rightarrow> Some (x - y)))"

definition nmul :: "num \<Rightarrow> num \<Rightarrow> num" where
  "nmul a b = (case a of None \<Rightarrow> None | Some x \<Rightarrow> (case b of None \<Rightarrow> None | Some y \<Rightarrow> Some (x * y)))"

definition ndiv :: "num \<Rightarrow> num \<Rightarrow> num" where
  "ndiv a b = (case a of None \<Rightarrow> None | Some x \<Rightarrow>
     (case b of None \<Rightarrow> None | Some y \<Rightarrow> if y = 0 then None else Some (x / y)))"

section \<open>Projection primitives\<close>

text \<open>
  \<^verbatim>\<open>_pixels_to_3d(x, y, d, camera_intrinsics)\<close> at one array element: numpy applies
  the body elementwise to the arrays \<open>x\<close>, \<open>y\<close> and \<open>d\<close>, which have the same shape at
  the only call site. The intrinsics arrive unpacked as \<open>(f, x0, y0)\<close>; the unpacking
  itself, which raises unless the array has three entries, is \<open>unpack_intrinsics\<close>.
\<close>

fun unpack_intrinsics :: "real list \<Rightarrow> error + (real \<times> real \<times> real)" where
  "unpack_intrinsics [f, x0, y0] = Inr (f, x0, y0)"
| "unpack_intrinsics _ = Inl ValueError"

definition pixels_to_3d :: "real \<Rightarrow> real \<Rightarrow> real \<Rightarrow> real \<times> real \<times> real \<Rightarrow> num \<times> num \<times> num" where
  "pixels_to_3d x y d camera_intrinsics =
     (case camera_intrinsics of (f, x0, y0) \<Rightarrow>
        let factor = ndiv (Some d) (Some f);
            X = nmul (Some (x - x0)) factor;
            Y = nmul (Some (y - y0)) factor;
            Z = Some d
        in (X, Y, Z))"

text \<open>
  \<^verbatim>\<open>_3d_to_pixels(points, camera_intrinsics)\<close> at one point \<open>[X, Y, Z]\<close> of the
  point array (a row along its last axis).
\<close>

definition points_to_pixels :: "num list \<Rightarrow> real \<times> real \<times> real \<Rightarrow> num \<times> num" where
  "points_to_pixels point camera_intrinsics =
     (case camera_intrinsics of (f, x0, y0) \<Rightarrow>
        let X = point ! 0;
            Y = point ! 1;
            Z = point ! 2;
            x = nadd (ndiv (nmul (Some f) X) Z) (Some x0);
            y = nadd (ndiv (nmul (Some f) Y) Z) (Some y0)
        in (x, y))"

text \<open>\<^verbatim>\<open>np.stack([X, Y, Z], axis=2)\<close> at one element.\<close>

definition stack3 :: "'a \<times> 'a \<times> 'a \<Rightarrow> 'a list" where
  "stack3 t = (case t of (a, b, c) \<Rightarrow> [a, b, c])"

section \<open>Rotation construction\<close>

text \<open>
  Matrices are lists of rows, as \<^verbatim>\<open>np.array([[..], [..], [..]])\<close> writes them.
  \<open>matmul\<close> is numpy's \<^verbatim>\<open>@\<close> on two-dimensional arrays.
\<close>

definition mat_col :: "real list list \<Rightarrow> nat \<Rightarrow> real list" where
  "mat_col B j = map (\<lambda>row. row ! j) B"

definition mat_T :: "real list list \<Rightarrow> real list list" where
  "mat_T A = map (mat_col A) [0..<(case A of [] \<Rightarrow> 0 | row # _ \<Rightarrow> length row)]"

definition dot :: "real list \<Rightarrow> real list \<Rightarrow> real" where
  "dot u v = sum_list (map2 (*) u v)"

definition matmul :: "real list list \<Rightarrow> real list list \<Rightarrow> real list list" where
  "matmul A B = map (\<lambda>row. map (dot row) (mat_T B)) A"

definition euler_to_rot :: "real \<Rightarrow> real \<Rightarrow> real \<Rightarrow> real list list" where
  "euler_to_rot x y z =
     (let rot_x = [[1, 0, 0],
                   [0, cos x, - sin x],
                   [0, sin x, cos x]];
          rot_z = [[cos z, - sin z, 0],
                   [sin z, cos z, 0],
                   [0, 0, 1]];
          rot_y = [[cos y, 0, sin y],
                   [0, 1, 0],
                   [- sin y, 0, cos y]]
      in matmul (matmul rot_z rot_x) rot_y)"

text \<open>
  The caller contract of the data model on a 9-value rotation block, in the words of the
  specification: the matrix is orthonormal and its determinant is \<open>+1\<close>.
\<close>

definition identity3 :: "real list list" where
  "identity3 = [[1, 0, 0], [0, 1, 0], [0, 0, 1]]"

definition det3 :: "real list list \<Rightarrow> real" where
  "det3 A =
       A ! 0 ! 0 * (A ! 1 ! 1 * A ! 2 ! 2 - A ! 1 ! 2 * A ! 2 ! 1)
     - A ! 0 ! 1 * (A ! 1 ! 0 * A ! 2 ! 2 - A ! 1 ! 2 * A ! 2 ! 0)
     + A ! 0 ! 2 * (A ! 1 ! 0 * A ! 2 ! 1 - A ! 1 ! 1 * A ! 2 ! 0)"

definition valid_rotation :: "real list list \<Rightarrow> bool" where
  "valid_rotation R = (matmul (mat_T R) R = identity3 \<and> det3 R = 1)"

section \<open>Dense flow synthesizer\<close>

text \<open>
  Arrays are nested lists, outermost axis first; the shape of a two-dimensional array is
  read off its length and the length of its first row (an empty list stands for an array
  whose leading dimension is zero). The depth argument is either a two-dimensional array
  \<open>[H, W]\<close> or a three-dimensional one \<open>[H, W, C]\<close>: the function's docstring asks for
  \<open>[height, width, 1]\<close>.
\<close>

datatype depth_array = Depth2 "real list list" | Depth3 "real list list list"

datatype dtype = Float64 | Float32

record flow_array =
  arr_dtype :: dtype
  arr_data :: "num list list list"

definition shape2 :: "'a list list \<Rightarrow> nat \<times> nat" where
  "shape2 a = (length a, case a of [] \<Rightarrow> 0 | row # _ \<Rightarrow> length row)"

text \<open>An array of shape \<open>[h, w]\<close> (with further axes inside \<open>'a\<close>) given by its entries.\<close>

definition grid :: "nat \<Rightarrow> nat \<Rightarrow> (nat \<Rightarrow> nat \<Rightarrow> 'a) \<Rightarrow> 'a list list" where
  "grid h w f = map (\<lambda>r. map (\<lambda>c. f r c) [0..<w]) [0..<h]"

text \<open>
  \<^verbatim>\<open>np.linspace(start, stop, num)\<close> with the endpoint included; a single sample is
  \<open>start\<close>.
\<close>

definition np_linspace :: "real \<Rightarrow> real \<Rightarrow> nat \<Rightarrow> real list" where
  "np_linspace start stop n =
     (if n = 1 then [start]
      else map (\<lambda>i. start + real i * ((stop - start) / (real n - 1))) [0..<n])"

text \<open>\<^verbatim>\<open>np.reshape(v, [3, 3])\<close> and \<^verbatim>\<open>np.reshape(v, [3])\<close> of a one-dimensional array.\<close>

definition reshape33 :: "real list \<Rightarrow> error + real list list" where
  "reshape33 v =
     (if length v = 9 then Inr [take 3 v, take 3 (drop 3 v), drop 6 v] else Inl ValueError)"

definition reshape3 :: "real list \<Rightarrow> error + real list" where
  "reshape3 v = (if length v = 3 then Inr v else Inl ValueError)"

text \<open>Elementwise arithmetic on the last axis, and \<^verbatim>\<open>p.dot(R.T)\<close> for one point.\<close>

definition vec_add :: "num list \<Rightarrow> num list \<Rightarrow> num list" where
  "vec_add u v = map2 nadd u v"

definition vec_sub :: "num list \<Rightarrow> num list \<Rightarrow> num list" where
  "vec_sub u v = map2 nsub u v"

definition dot_T :: "num list \<Rightarrow> real list list \<Rightarrow> num list" where
  "dot_T p R = map (\<lambda>row. foldl nadd (Some 0) (map2 nmul p (map Some row))) R"

text \<open>
  Line 61 at one pixel \<open>p\<close> with mask value \<open>m\<close>:
  \<^verbatim>\<open>P += mask * ((P - pivot).dot(rot.T) + pivot + trans - P)\<close>.
\<close>

definition move_point :: "num list \<Rightarrow> real list list \<Rightarrow> real list \<Rightarrow> real list \<Rightarrow> real \<Rightarrow> num list" where
  "move_point p rot transl pivot m =
     (let moved = vec_add (vec_add (dot_T (vec_sub p (map Some pivot)) rot) (map Some pivot))
                    (map Some transl)
      in vec_add p (map (nmul (Some m)) (vec_sub moved p)))"

text \<open>
  The mask of one object has shape \<open>[hm, wm]\<close> and is expanded to \<open>[hm, wm, 1]\<close>. numpy
  broadcasts it against the point field \<open>[h, w, 3]\<close>, and the in-place addition needs
  the result to have the shape of the field: each mask axis has the length of the field's
  axis or length one, and an axis of length one is read at index zero.
\<close>

definition broadcastable :: "nat \<times> nat \<Rightarrow> nat \<times> nat \<Rightarrow> bool" where
  "broadcastable ms ps =
     (case ms of (hm, wm) \<Rightarrow> case ps of (h, w) \<Rightarrow> (hm = h \<or> hm = 1) \<and> (wm = w \<or> wm = 1))"

definition mask_at :: "real list list \<Rightarrow> nat \<Rightarrow> nat \<Rightarrow> real" where
  "mask_at msk r c =
     (case shape2 msk of (hm, wm) \<Rightarrow>
        msk ! (if hm = 1 then 0 else r) ! (if wm = 1 then 0 else c))"

text \<open>The body of the loop over the objects (lines 57 to 61) for object \<open>i\<close>.\<close>

definition apply_motion ::
  "num list list list \<Rightarrow> real list list \<Rightarrow> real list list list \<Rightarrow> nat \<Rightarrow> error + num list list list" where
  "apply_motion P motions masks i =
     (case reshape33 (take 9 (motions ! i)) of
        Inl e \<Rightarrow> Inl e
      | Inr rot \<Rightarrow>
       (case reshape3 (take 3 (drop 9 (motions ! i))) of
          Inl e \<Rightarrow> Inl e
        | Inr transl \<Rightarrow>
         (case reshape3 (drop 12 (motions ! i)) of
            Inl e \<Rightarrow> Inl e
          | Inr pivot \<Rightarrow>
             if length masks \<le> i then Inl IndexError
             else let msk = masks ! i in
               if broadcastable (shape2 msk) (shape2 P)
               then Inr (grid (fst (shape2 P)) (snd (shape2 P))
                          (\<lambda>r c. move_point (P ! r ! c) rot transl pivot (mask_at msk r c)))
               else Inl ValueError)))"

text \<open>\<^verbatim>\<open>for i in range(motions.shape[0])\<close>: the indices are visited in order.\<close>

fun motion_loop ::
  "num list list list \<Rightarrow> real list list \<Rightarrow> real list list list \<Rightarrow> nat list \<Rightarrow> error + num list list list" where
  "motion_loop P motions masks [] = Inr P"
| "motion_loop P motions masks (i # is) =
     (case apply_motion P motions masks i of
        Inl e \<Rightarrow> Inl e
      | Inr P' \<Rightarrow> motion_loop P' motions masks is)"

text \<open>
  The camera translation \<^verbatim>\<open>camera_motion[9:]\<close> is flattened and added to a field whose
  last axis has length three: numpy accepts three values, or one value that it repeats.
\<close>

definition broadcast3 :: "real list \<Rightarrow> error + real list" where
  "broadcast3 v =
     (if length v = 3 then Inr v
      else if length v = 1 then Inr (replicate 3 (v ! 0))
      else Inl ValueError)"

definition dense_flow_from_motion ::
  "depth_array \<Rightarrow> real list list \<Rightarrow> real list list list \<Rightarrow> real list \<Rightarrow> real list \<Rightarrow> error + flow_array" where
  "dense_flow_from_motion depth motions masks camera_motion camera_intrinsics =
     (case depth of
        Depth2 _ \<Rightarrow> Inl IndexError
      | Depth3 dep \<Rightarrow>
         (case shape2 dep of (h, w) \<Rightarrow>
            if list_ex (list_ex (\<lambda>channels. channels = [])) dep then Inl IndexError
            else
              let depth0 = grid h w (\<lambda>r c. dep ! r ! c ! 0);
                  x_range = np_linspace 0 (real w - 1) w;
                  y_range = np_linspace 0 (real h - 1) h;
                  x = grid h w (\<lambda>r c. x_range ! c);
                  y = grid h w (\<lambda>r c. y_range ! r)
              in (case unpack_intrinsics camera_intrinsics of
                    Inl e \<Rightarrow> Inl e
                  | Inr intr \<Rightarrow>
                     let P = grid h w (\<lambda>r c.
                               stack3 (pixels_to_3d (x ! r ! c) (y ! r ! c) (depth0 ! r ! c) intr))
                     in (case motion_loop P motions masks [0..<length motions] of
                           Inl e \<Rightarrow> Inl e
                         | Inr P1 \<Rightarrow>
                            (case reshape33 (take 9 camera_motion) of
                               Inl e \<Rightarrow> Inl e
                             | Inr rot_cam \<Rightarrow>
                                (case broadcast3 (drop 9 camera_motion) of
                                   Inl e \<Rightarrow> Inl e
                                 | Inr trans_cam \<Rightarrow>
                                    let P2 = grid h w (\<lambda>r c.
                                               vec_add (dot_T (P1 ! r ! c) rot_cam) (map Some trans_cam));
                                        flow = grid h w (\<lambda>r c.
                                                 case points_to_pixels (P2 ! r ! c) intr of
                                                   (x_t, y_t) \<Rightarrow>
                                                     [nsub x_t (Some (x ! r ! c)),
                                                      nsub y_t (Some (y ! r ! c))])
                                    in Inr \<lparr>arr_dtype = Float32, arr_data = flow\<rparr>))))))"

section \<open>Box matcher and motion error evaluator\<close>

text \<open>
  \<^verbatim>\<open>_rotation_angle(mat)\<close> on a stack of \<open>3 \<times> 3\<close> matrices; \<^verbatim>\<open>np.acos\<close> is the inverse
  cosine of numpy 2 (older releases have no attribute of that name and raise
  \<^verbatim>\<open>AttributeError\<close> at this call already).
\<close>

definition np_clip :: "real \<Rightarrow> real \<Rightarrow> real \<Rightarrow> real" where
  "np_clip v lo hi = min (max v lo) hi"

definition trace3 :: "real list list \<Rightarrow> real" where
  "trace3 A = A ! 0 ! 0 + A ! 1 ! 1 + A ! 2 ! 2"

definition rotation_angle :: "real list list list \<Rightarrow> real list" where
  "rotation_angle mat = map (\<lambda>A. arccos (np_clip ((trace3 A - 1) / 2) (- 1) 1)) mat"

text \<open>
  \<^verbatim>\<open>np.norm\<close>: the top-level numpy namespace has no attribute \<open>norm\<close> in any release
  (the function lives in \<^verbatim>\<open>np.linalg\<close>), so evaluating \<^verbatim>\<open>np.norm\<close> raises.
\<close>

definition np_norm :: "real list list \<Rightarrow> error + real list" where
  "np_norm a = Inl AttributeError"

text \<open>
  \<^verbatim>\<open>np.reshape(a, [-1, 3, 3])\<close> and \<^verbatim>\<open>np.reshape(a, [-1, 3, 1])\<close> on the flattened
  entries of \<open>a\<close>; the second result is kept as a list of 3-vectors.
\<close>

definition reshape_m33 :: "real list \<Rightarrow> error + real list list list" where
  "reshape_m33 flat =
     (if length flat mod 9 = 0
      then Inr (map (\<lambda>k. [take 3 (drop (9 * k) flat),
                           take 3 (drop (9 * k + 3) flat),
                           take 3 (drop (9 * k + 6) flat)]) [0..<length flat div 9])
      else Inl ValueError)"

definition reshape_m31 :: "real list \<Rightarrow> error + real list list" where
  "reshape_m31 flat =
     (if length flat mod 3 = 0
      then Inr (map (\<lambda>k. take 3 (drop (3 * k) flat)) [0..<length flat div 3])
      else Inl ValueError)"

text \<open>
  numpy broadcasting along one axis: the two lengths agree, or one of them is one and its
  single entry is repeated; otherwise the operation raises.
\<close>

definition batch2 :: "('a \<Rightarrow> 'b \<Rightarrow> 'c) \<Rightarrow> 'a list \<Rightarrow> 'b list \<Rightarrow> error + 'c list" where
  "batch2 f xs ys =
     (if length xs = length ys then Inr (map2 f xs ys)
      else if length xs = 1 then Inr (map (f (xs ! 0)) ys)
      else if length ys = 1 then Inr (map (\<lambda>x. f x (ys ! 0)) xs)
      else Inl ValueError)"

fun sequence :: "(error + 'a) list \<Rightarrow> error + 'a list" where
  "sequence [] = Inr []"
| "sequence (Inl e # _) = Inl e"
| "sequence (Inr v # rest) = (case sequence rest of Inl e \<Rightarrow> Inl e | Inr vs \<Rightarrow> Inr (v # vs))"

definition sub2d :: "real list list \<Rightarrow> real list list \<Rightarrow> error + real list list" where
  "sub2d a b =
     (case batch2 (batch2 (-)) a b of Inl e \<Rightarrow> Inl e | Inr rows \<Rightarrow> sequence rows)"

definition mat_vec :: "real list list \<Rightarrow> real list \<Rightarrow> real list" where
  "mat_vec A v = map (\<lambda>row. dot row v) A"

text \<open>
  \<^verbatim>\<open>_motion_errors(pred, target)\<close>, statement by statement. Line 119 evaluates
  \<^verbatim>\<open>np.norm\<close>; were it to return, lines 120 and 122 evaluate it again, and line 128
  reads the name \<^verbatim>\<open>rel_angle\<close>, which is bound nowhere (the relative errors are
  bound to \<^verbatim>\<open>err_rel_angle\<close> and \<^verbatim>\<open>err_rel_trans\<close>). The function's last line,
  \<^verbatim>\<open>return {k, np.asscalar(v) for (k, v) in error_dict.items()}\<close>, is not a Python
  expression; the model ends at the first statement that cannot complete.
\<close>

definition motion_errors :: "real list list \<Rightarrow> real list list \<Rightarrow> error + (string \<rightharpoonup> real)" where
  "motion_errors pred target =
     (case reshape_m33 (concat (map (take 9) pred)) of
        Inl e \<Rightarrow> Inl e
      | Inr rot \<Rightarrow>
       (let transl = map (\<lambda>row. take 3 (drop 9 row)) pred;
            pivot = map (\<lambda>row. take 3 (drop 12 row)) pred
        in (case reshape_m33 (concat (map (take 9) target)) of
              Inl e \<Rightarrow> Inl e
            | Inr gt_rot \<Rightarrow>
             (let gt_trans = map (\<lambda>row. take 3 (drop 9 row)) target;
                  gt_pivot = map (\<lambda>row. take 3 (drop 12 row)) target;
                  rot_T = map mat_T rot
              in (case batch2 matmul rot_T gt_rot of
                    Inl e \<Rightarrow> Inl e
                  | Inr d_rot \<Rightarrow>
                   (case sub2d gt_trans transl of
                      Inl e \<Rightarrow> Inl e
                    | Inr diff \<Rightarrow>
                     (case reshape_m31 (concat diff) of
                        Inl e \<Rightarrow> Inl e
                      | Inr cols \<Rightarrow>
                       (case batch2 mat_vec rot_T cols of
                          Inl e \<Rightarrow> Inl e
                        | Inr d_trans \<Rightarrow>
                         (case sub2d gt_pivot pivot of
                            Inl e \<Rightarrow> Inl e
                          | Inr d_pivot \<Rightarrow>
                           (let err_angle = rotation_angle d_rot
                            in (case np_norm d_trans of
                                  Inl e \<Rightarrow> Inl e
                                | Inr err_trans \<Rightarrow>
                                 (case np_norm d_pivot of
                                    Inl e \<Rightarrow> Inl e
                                  | Inr err_pivot \<Rightarrow>
                                   (case np_norm gt_trans of
                                      Inl e \<Rightarrow> Inl e
                                    | Inr gt_norm \<Rightarrow>
                                     (let err_rel_trans = map2 (/) err_trans gt_norm;
                                          err_rel_angle = map2 (/) err_angle (rotation_angle gt_rot)
                                      in Inl NameError))))))))))))))"

text \<open>
  \<^verbatim>\<open>np.argmax(iou, axis=1)\<close>: per row the index of the first largest entry (numpy
  scans the row and moves on a strictly larger entry only); a reduction over an axis of
  length zero raises. The number of columns of the IoU matrix is the number of ground-truth
  boxes.
\<close>

fun argmax_from :: "real list \<Rightarrow> nat \<Rightarrow> real \<Rightarrow> nat \<Rightarrow> nat" where
  "argmax_from [] i best best_i = best_i"
| "argmax_from (v # vs) i best best_i =
     (if best < v then argmax_from vs (Suc i) v i else argmax_from vs (Suc i) best best_i)"

definition np_argmax :: "real list \<Rightarrow> nat" where
  "np_argmax row = (case row of [] \<Rightarrow> 0 | v # vs \<Rightarrow> argmax_from vs 1 v 0)"

definition argmax_axis1 :: "real list list \<Rightarrow> nat \<Rightarrow> error + nat list" where
  "argmax_axis1 a ncols = (if ncols = 0 then Inl ValueError else Inr (map np_argmax a))"

text \<open>\<^verbatim>\<open>a[i, :]\<close> raises when the first axis has no index \<open>i\<close>.\<close>

definition np_row :: "'a list \<Rightarrow> nat \<Rightarrow> error + 'a" where
  "np_row a i = (if i < length a then Inr (a ! i) else Inl IndexError)"

text \<open>
  \<^verbatim>\<open>np.stack(arrays, axis=0)\<close> raises on an empty list (``need at least one array to
  stack'') and on arrays of different shapes.
\<close>

definition np_stack :: "real list list \<Rightarrow> error + real list list" where
  "np_stack arrays =
     (case arrays of
        [] \<Rightarrow> Inl ValueError
      | a # rest \<Rightarrow>
          if list_all (\<lambda>b. length b = length a) rest then Inr arrays else Inl ValueError)"

text \<open>The loop of lines 151 to 155, with the two lists it appends to.\<close>

fun match_loop ::
  "real list list \<Rightarrow> nat list \<Rightarrow> real \<Rightarrow> real list list \<Rightarrow> real list list \<Rightarrow> nat list \<Rightarrow>
   real list list \<times> real list list \<Rightarrow> error + (real list list \<times> real list list)" where
  "match_loop iou max_overlap_gt_ids thr detected_motions gt_boxes [] acc = Inr acc"
| "match_loop iou max_overlap_gt_ids thr detected_motions gt_boxes (i # is) acc =
     (case acc of (pred_list, target_list) \<Rightarrow>
        let gt_id = max_overlap_gt_ids ! i in
        if thr \<le> iou ! i ! gt_id
        then (case np_row detected_motions i of
                Inl e \<Rightarrow> Inl e
              | Inr p \<Rightarrow>
                 (case np_row gt_boxes gt_id of
                    Inl e \<Rightarrow> Inl e
                  | Inr t \<Rightarrow>
                     match_loop iou max_overlap_gt_ids thr detected_motions gt_boxes is
                       (pred_list @ [p], target_list @ [t])))
        else match_loop iou max_overlap_gt_ids thr detected_motions gt_boxes is acc)"

text \<open>
  Lines 143 to 155 of \<^verbatim>\<open>evaluate\<close>: the two lists the loop has built. The IoU of
  two box lists is computed by \<^verbatim>\<open>np_box_list_ops.iou\<close>, a collaborator outside this
  module: it is the parameter \<open>iou_fn\<close>, a matrix with one row per detection and one
  column per ground-truth box. A box list has as many boxes as its array has rows. The
  parameter \<open>gt_motions\<close> occurs nowhere in the body.
\<close>

definition match_lists ::
  "(real list list \<Rightarrow> real list list \<Rightarrow> real list list) \<Rightarrow> real list list \<Rightarrow> real list list \<Rightarrow>
   real list list \<Rightarrow> real list list \<Rightarrow> real \<Rightarrow> error + (real list list \<times> real list list)" where
  "match_lists iou_fn gt_boxes gt_motions detected_boxes detected_motions matching_iou_threshold =
     (let iou = iou_fn detected_boxes gt_boxes
      in case argmax_axis1 iou (length gt_boxes) of
           Inl e \<Rightarrow> Inl e
         | Inr max_overlap_gt_ids \<Rightarrow>
             match_loop iou max_overlap_gt_ids matching_iou_threshold detected_motions gt_boxes
               [0..<length detected_boxes] ([], []))"

text \<open>
  \<^verbatim>\<open>evaluate\<close> up to line 157: the arrays \<open>pred\<close> and \<open>target\<close> that line 158 hands to
  \<^verbatim>\<open>_motion_errors\<close>.
\<close>

definition evaluate_matches ::
  "(real list list \<Rightarrow> real list list \<Rightarrow> real list list) \<Rightarrow> real list list \<Rightarrow> real list list \<Rightarrow>
   real list list \<Rightarrow> real list list \<Rightarrow> real \<Rightarrow> error + (real list list \<times> real list list)" where
  "evaluate_matches iou_fn gt_boxes gt_motions detected_boxes detected_motions matching_iou_threshold =
     (case match_lists iou_fn gt_boxes gt_motions detected_boxes detected_motions
             matching_iou_threshold of
        Inl e \<Rightarrow> Inl e
      | Inr (pred_list, target_list) \<Rightarrow>
         (case np_stack pred_list of
            Inl e \<Rightarrow> Inl e
          | Inr pred \<Rightarrow>
             (case np_stack target_list of
                Inl e \<Rightarrow> Inl e
              | Inr target \<Rightarrow> Inr (pred, target))))"

definition evaluate ::
  "(real list list \<Rightarrow> real list list \<Rightarrow> real list list) \<Rightarrow> real list list \<Rightarrow> real list list \<Rightarrow>
   real list list \<Rightarrow> real list list \<Rightarrow> real \<Rightarrow> error + (string \<rightharpoonup> real)" where
  "evaluate iou_fn gt_boxes gt_motions detected_boxes detected_motions matching_iou_threshold =
     (case evaluate_matches iou_fn gt_boxes gt_motions detected_boxes detected_motions
             matching_iou_threshold of
        Inl e \<Rightarrow> Inl e
      | Inr (pred, target) \<Rightarrow> motion_errors pred target)"

section \<open>Notions of the specification\<close>

text \<open>
  The pairs the box matcher emits, in the words of the specification: for each detection
  \<open>i\<close> in index order the ground-truth index \<open>j* = argmax\<^sub>j M[i, j]\<close>, kept when
  \<open>M[i, j*] \<ge> threshold\<close>.
\<close>

definition spec_matches :: "real list list \<Rightarrow> real \<Rightarrow> (nat \<times> nat) list" where
  "spec_matches M thr =
     map (\<lambda>i. (i, np_argmax (M ! i)))
       (filter (\<lambda>i. thr \<le> M ! i ! np_argmax (M ! i)) [0..<length M])"

section \<open>Projection round trip and rotation construction\<close>

lemma mat_T_3x3:
  "mat_T [[a, b, c], [d, e, f], [g, h, i]] = [[a, d, g], [b, e, h], [c, f, i]]"
  by (simp add: mat_T_def mat_col_def upt_rec)

lemma matmul_3x3:
  "matmul [[a, b, c], [d, e, f], [g, h, i]] [[a', b', c'], [d', e', f'], [g', h', i']] =
     [[a * a' + b * d' + c * g', a * b' + b * e' + c * h', a * c' + b * f' + c * i'],
      [d * a' + e * d' + f * g', d * b' + e * e' + f * h', d * c' + e * f' + f * i'],
      [g * a' + h * d' + i * g', g * b' + h * e' + i * h', g * c' + h * f' + i * i']]"
  by (simp add: matmul_def mat_T_3x3 dot_def)

lemma euler_to_rot_entries:
  "euler_to_rot x y z =
     [[cos z * cos y - sin z * sin x * sin y, - (sin z * cos x),
       cos z * sin y + sin z * sin x * cos y],
      [sin z * cos y + cos z * sin x * sin y, cos z * cos x,
       sin z * sin y - cos z * sin x * cos y],
      [- (cos x * sin y), sin x, cos x * cos y]]"
  unfolding euler_to_rot_def Let_def matmul_3x3 by (simp add: algebra_simps)

text \<open>
  The two polynomial identities behind the rotation property, over any three pairs
  \<open>(c, s)\<close> on the unit circle.
\<close>

lemma zxy_orthonormal:
  fixes cx sx cy sy cz sz :: real
  assumes "cx * cx + sx * sx = 1" and "cy * cy + sy * sy = 1" and "cz * cz + sz * sz = 1"
  defines "R \<equiv> [[cz * cy - sz * sx * sy, - (sz * cx), cz * sy + sz * sx * cy],
                 [sz * cy + cz * sx * sy, cz * cx, sz * sy - cz * sx * cy],
                 [- (cx * sy), sx, cx * cy]]"
  shows "matmul (mat_T R) R = identity3"
  unfolding R_def mat_T_3x3 matmul_3x3 identity3_def
  apply simp
  apply (intro conjI)
  using assms(1-3) apply algebra+
  done

lemma zxy_det:
  fixes cx sx cy sy cz sz :: real
  assumes "cx * cx + sx * sx = 1" and "cy * cy + sy * sy = 1" and "cz * cz + sz * sz = 1"
  shows "det3 [[cz * cy - sz * sx * sy, - (sz * cx), cz * sy + sz * sx * cy],
               [sz * cy + cz * sx * sy, cz * cx, sz * sy - cz * sx * cy],
               [- (cx * sy), sx, cx * cy]] = 1"
  unfolding det3_def
  apply simp
  using assms apply algebra
  done

lemma cos_sin_unit: "cos (t::real) * cos t + sin t * sin t = 1"
  using sin_cos_squared_add2 [of t] by (simp add: power2_eq_square)

text \<open>
  Claim C4, as stated: for every pixel \<open>(x, y)\<close> and depth \<open>d\<close> with \<open>f \<noteq> 0\<close>, projecting the
  back-projected point reproduces \<open>(x, y)\<close>. It fails at depth zero: the point is
  \<open>(0, 0, 0)\<close> and the forward projection divides by \<open>Z = 0\<close>, which gives NaN.
\<close>

theorem C4_roundtrip_depth_zero_counterexample:
  "(1::real) \<noteq> 0 \<and>
   points_to_pixels (stack3 (pixels_to_3d 1 1 0 (1, 0, 0))) (1, 0, 0) = (None, None) \<and>
   points_to_pixels (stack3 (pixels_to_3d 1 1 0 (1, 0, 0))) (1, 0, 0) \<noteq> (Some 1, Some 1)"
  by (simp add: points_to_pixels_def pixels_to_3d_def stack3_def ndiv_def nmul_def nadd_def Let_def)

text \<open>
  Claim C4, amended: for every pixel \<open>(x, y)\<close> and every depth \<open>d \<noteq> 0\<close>, with focal
  length \<open>f \<noteq> 0\<close>, forward-projecting the back-projected point gives the finite pixel
  coordinates \<open>(x, y)\<close> again.
\<close>

theorem C4_roundtrip_projection:
  assumes "f \<noteq> 0" and "d \<noteq> 0"
  shows "points_to_pixels (stack3 (pixels_to_3d x y d (f, x0, y0))) (f, x0, y0) = (Some x, Some y)"
  using assms
  by (simp add: points_to_pixels_def pixels_to_3d_def stack3_def ndiv_def nmul_def nadd_def Let_def)

theorem C4_roundtrip_projection_witness:
  "(2::real) \<noteq> 0 \<and> (5::real) \<noteq> 0 \<and>
   points_to_pixels (stack3 (pixels_to_3d 3 4 5 (2, 1, 1))) (2, 1, 1) = (Some 3, Some 4)"
proof -
  have f: "(2::real) \<noteq> 0" and d: "(5::real) \<noteq> 0" by simp_all
  from C4_roundtrip_projection [OF f d, of 3 4 1 1] show ?thesis by simp
qed

text \<open>
  Claim C10: for all angles \<open>(x, y, z)\<close> the matrix returned by \<open>euler_to_rot\<close> is a
  valid rotation: its transpose times itself is the identity and its determinant is
  \<open>+1\<close> (over the reals, that is, up to the rounding of the float32 entries).
\<close>

theorem C10_euler_to_rot_valid_rotation: "valid_rotation (euler_to_rot x y z)"
  unfolding valid_rotation_def euler_to_rot_entries
  using zxy_orthonormal [OF cos_sin_unit [of x] cos_sin_unit [of y] cos_sin_unit [of z]]
        zxy_det [OF cos_sin_unit [of x] cos_sin_unit [of y] cos_sin_unit [of z]]
  by simp

section \<open>Box matching and evaluation\<close>

lemma motion_errors_never_returns: "motion_errors pred target \<noteq> Inr d"
  by (simp add: motion_errors_def np_norm_def Let_def split: sum.splits)

text \<open>
  Claim C8 says that for \<open>M \<ge> 1\<close> matched pairs the motion-error computation returns a
  mapping with the five mean errors. The code does not: on one pair of well-formed
  15-value motion vectors (identity rotation, target translation \<open>(1, 0, 0)\<close>) it raises
  \<^verbatim>\<open>AttributeError\<close> at \<^verbatim>\<open>np.norm\<close>, and by \<open>motion_errors_never_returns\<close> it
  returns a mapping on no input at all.
\<close>

theorem C8_motion_errors_raises:
  "motion_errors [[1, 0, 0, 0, 1, 0, 0, 0, 1, 0, 0, 0, 0, 0, 0]]
                 [[1, 0, 0, 0, 1, 0, 0, 0, 1, 1, 0, 0, 0, 0, 0]] = Inl AttributeError"
  by (simp add: motion_errors_def np_norm_def Let_def reshape_m33_def reshape_m31_def
      batch2_def sub2d_def)

lemma argmax_from_bounds:
  "bi < i \<Longrightarrow> argmax_from vs i best bi < i + length vs"
  by (induction vs i best bi rule: argmax_from.induct) auto

lemma argmax_from_props:
  assumes "bi < i" "length pre = i" "pre ! bi = best" "\<forall>j<i. pre ! j \<le> best" "\<forall>j<bi. pre ! j < best"
  shows "let k = argmax_from vs i best bi in
          k < i + length vs \<and> (\<forall>j < i + length vs. (pre @ vs) ! j \<le> (pre @ vs) ! k) \<and> (\<forall>j<k. (pre @ vs) ! j < (pre @ vs) ! k)"
  using assms
proof (induction vs i best bi arbitrary: pre rule: argmax_from.induct)
  case (1 i best best_i)
  then show ?case by (auto simp: Let_def)
next
  case (2 v vs i best best_i)
  show ?case
  proof (cases "best < v")
    case True
    have "let k = argmax_from vs (Suc i) v i in
          k < Suc i + length vs \<and> (\<forall>j < Suc i + length vs. ((pre @ [v]) @ vs) ! j \<le> ((pre @ [v]) @ vs) ! k) \<and> (\<forall>j<k. ((pre @ [v]) @ vs) ! j < ((pre @ [v]) @ vs) ! k)"
      apply (rule 2(1)[OF True])
      using 2(3-) True by (auto simp: nth_append less_Suc_eq)
    then show ?thesis using True by (simp add: Let_def)
  next
    case False
    have "let k = argmax_from vs (Suc i) best best_i in
          k < Suc i + length vs \<and> (\<forall>j < Suc i + length vs. ((pre @ [v]) @ vs) ! j \<le> ((pre @ [v]) @ vs) ! k) \<and> (\<forall>j<k. ((pre @ [v]) @ vs) ! j < ((pre @ [v]) @ vs) ! k)"
      apply (rule 2(2)[OF False])
      using 2(3-) False by (auto simp: nth_append less_Suc_eq)
    then show ?thesis using False by (simp add: Let_def)
  qed
qed

lemma np_argmax_props:
  assumes "row \<noteq> []"
  shows "np_argmax row < length row" "\<forall>j<length row. row ! j \<le> row ! np_argmax row"
        "\<forall>j<np_argmax row. row ! j < row ! np_argmax row"
proof -
  obtain v vs where row: "row = v # vs" using assms by (cases row) auto
  have "let k = argmax_from vs 1 v 0 in
          k < 1 + length vs \<and> (\<forall>j < 1 + length vs. ([v] @ vs) ! j \<le> ([v] @ vs) ! k) \<and> (\<forall>j<k. ([v] @ vs) ! j < ([v] @ vs) ! k)"
    by (rule argmax_from_props) auto
  then show "np_argmax row < length row" "\<forall>j<length row. row ! j \<le> row ! np_argmax row"
        "\<forall>j<np_argmax row. row ! j < row ! np_argmax row"
    by (simp_all add: np_argmax_def row Let_def)
qed


lemma match_loop_lists:
  assumes "\<forall>i\<in>set is. i < length dm \<and> ids ! i < length gb"
  shows "match_loop M ids thr dm gb is (ps, ts) =
           Inr (ps @ map (\<lambda>i. dm ! i) (filter (\<lambda>i. thr \<le> M ! i ! (ids ! i)) is),
                ts @ map (\<lambda>i. gb ! (ids ! i)) (filter (\<lambda>i. thr \<le> M ! i ! (ids ! i)) is))"
  using assms
  by (induction "is" arbitrary: ps ts) (simp_all add: np_row_def Let_def)

lemma match_loop_none:
  assumes "\<forall>i\<in>set is. \<not> thr \<le> M ! i ! (ids ! i)"
  shows "match_loop M ids thr dm gb is acc = Inr acc"
  using assms
  by (induction "is" arbitrary: acc) (simp_all add: Let_def split: prod.splits)

lemma filter_upt_cong:
  "(\<And>i. i < n \<Longrightarrow> P i = Q i) \<Longrightarrow> filter P [0..<n] = filter Q [0..<n]"
  by (rule filter_cong) auto

text \<open>
  Claim C6: for an IoU matrix \<open>M\<close> with one row per detection and one (or more) column
  per ground-truth box, the loop hands on, for the pairs \<open>(i, j*)\<close> of \<open>spec_matches\<close> in
  detection order, the motion of detection \<open>i\<close> and the row \<open>j*\<close> of \<open>gt_boxes\<close>; \<open>j*\<close> is
  the lowest index whose entry is the maximum of row \<open>i\<close>; a pair is there exactly when
  \<open>M[i, j*] \<ge> threshold\<close>, and nothing removes a ground-truth index that occurs twice.
\<close>

theorem C6_greedy_matching:
  assumes M: "iou_fn detected_boxes gt_boxes = M"
    and rows: "length M = length detected_boxes"
    and cols: "\<forall>i<length M. length (M ! i) = length gt_boxes"
    and gt: "gt_boxes \<noteq> []"
    and dm: "length detected_boxes \<le> length detected_motions"
  shows "match_lists iou_fn gt_boxes gt_motions detected_boxes detected_motions thr =
           Inr (map (\<lambda>(i, j). detected_motions ! i) (spec_matches M thr),
                map (\<lambda>(i, j). gt_boxes ! j) (spec_matches M thr)) \<and>
         (\<forall>i<length M. np_argmax (M ! i) < length gt_boxes \<and>
            (\<forall>j<length gt_boxes. M ! i ! j \<le> M ! i ! np_argmax (M ! i)) \<and>
            (\<forall>j<np_argmax (M ! i). M ! i ! j < M ! i ! np_argmax (M ! i)))"
proof -
  have arg: "np_argmax (M ! i) < length gt_boxes \<and>
            (\<forall>j<length gt_boxes. M ! i ! j \<le> M ! i ! np_argmax (M ! i)) \<and>
            (\<forall>j<np_argmax (M ! i). M ! i ! j < M ! i ! np_argmax (M ! i))" if "i < length M" for i
  proof -
    have "M ! i \<noteq> []" using cols that gt by auto
    from np_argmax_props [OF this] cols that show ?thesis by simp
  qed
  let ?ids = "map np_argmax M"
  let ?is = "[0..<length detected_boxes]"
  have idx: "\<forall>i\<in>set ?is. i < length detected_motions \<and> ?ids ! i < length gt_boxes"
    using arg rows dm by auto
  have filt: "filter (\<lambda>i. thr \<le> M ! i ! (?ids ! i)) ?is =
              filter (\<lambda>i. thr \<le> M ! i ! np_argmax (M ! i)) [0..<length M]"
    unfolding rows by (rule filter_upt_cong) (simp add: rows)
  have "match_loop M ?ids thr detected_motions gt_boxes ?is ([], []) =
          Inr (map (\<lambda>(i, j). detected_motions ! i) (spec_matches M thr),
               map (\<lambda>(i, j). gt_boxes ! j) (spec_matches M thr))"
    unfolding match_loop_lists [OF idx] filt spec_matches_def
    by (auto simp: comp_def)
  then have "match_lists iou_fn gt_boxes gt_motions detected_boxes detected_motions thr =
           Inr (map (\<lambda>(i, j). detected_motions ! i) (spec_matches M thr),
                map (\<lambda>(i, j). gt_boxes ! j) (spec_matches M thr))"
    using gt by (simp add: match_lists_def M argmax_axis1_def)
  with arg show ?thesis by blast
qed

text \<open>
  Claim C7: when no detection survives the threshold, \<open>evaluate\<close> fails with an
  exception and returns no result: \<^verbatim>\<open>np.stack\<close> of the empty list (or, without any
  ground-truth box, \<^verbatim>\<open>np.argmax\<close> over an empty axis) raises \<^verbatim>\<open>ValueError\<close> before
  any mean is taken. That exception is the module's form of the specification's
  EmptyMatchSet failure.
\<close>

theorem C7_no_match_raises:
  assumes M: "iou_fn detected_boxes gt_boxes = M"
    and rows: "length M = length detected_boxes"
    and none: "spec_matches M thr = []"
  shows "evaluate iou_fn gt_boxes gt_motions detected_boxes detected_motions thr = Inl ValueError"
proof (cases "gt_boxes = []")
  case True
  then show ?thesis
    by (simp add: evaluate_def evaluate_matches_def match_lists_def argmax_axis1_def)
next
  case False
  from none have "filter (\<lambda>i. thr \<le> M ! i ! np_argmax (M ! i)) [0..<length M] = []"
    by (simp add: spec_matches_def)
  then have "\<forall>i<length M. \<not> thr \<le> M ! i ! np_argmax (M ! i)"
    by (auto simp: filter_empty_conv)
  then have "\<forall>i\<in>set [0..<length detected_boxes]. \<not> thr \<le> M ! i ! (map np_argmax M ! i)"
    using rows by simp
  from match_loop_none [OF this]
  have "match_lists iou_fn gt_boxes gt_motions detected_boxes detected_motions thr = Inr ([], [])"
    using False by (simp add: match_lists_def M argmax_axis1_def)
  then show ?thesis
    by (simp add: evaluate_def evaluate_matches_def np_stack_def)
qed

theorem C6_greedy_matching_witness:
  "match_lists (\<lambda>d g. [[9/10], [3/10], [6/10]]) [[0, 0, 1, 1]] [[7]]
      [[0, 0, 1, 1], [0, 0, 3, 3], [0, 0, 1, 2]] [[1], [2], [3]] (1/2) =
     Inr ([[1], [3]], [[0, 0, 1, 1], [0, 0, 1, 1]])"
proof -
  let ?M = "[[9/10], [3/10], [6/10 :: real]]"
  have sm: "spec_matches ?M (1/2) = [(0, 0), (2, 0)]"
    by (simp add: spec_matches_def np_argmax_def upt_rec)
  from C6_greedy_matching [of "\<lambda>d g. ?M" "[[0, 0, 1, 1], [0, 0, 3, 3], [0, 0, 1, 2]]" "[[0, 0, 1, 1]]" ?M
       "[[1], [2], [3]]" "[[7]]" "1/2"]
  show ?thesis unfolding sm by (simp add: nth_Cons')
qed

theorem C7_no_match_raises_witness:
  "evaluate (\<lambda>d g. [[3/10], [2/10]]) [[0, 0, 1, 1]] [[7]] [[0, 0, 3, 3], [0, 0, 4, 4]] [[1], [2]] (1/2)
     = Inl ValueError"
proof -
  let ?M = "[[3/10], [2/10 :: real]]"
  have sm: "spec_matches ?M (1/2) = []"
    by (simp add: spec_matches_def np_argmax_def upt_rec)
  from C7_no_match_raises [of "\<lambda>d g. ?M" _ _ ?M "1/2", OF refl _ sm]
  show ?thesis by simp
qed

text \<open>
  Claim C1 says that each surviving detection \<open>i\<close> matched to \<open>j\<close> is handed to the
  motion-error computation as the pair \<open>(detected_motions[i], gt_motions[j])\<close>. The code
  appends \<open>gt_boxes[j]\<close> instead (line 155): with one detection that matches the one
  ground-truth box, the target handed on is the 4-value box, not the 15-value
  ground-truth motion.
\<close>

theorem C1_target_is_gt_box:
  "evaluate_matches (\<lambda>d g. [[1]]) [[0, 0, 1, 1]] [[1, 0, 0, 0, 1, 0, 0, 0, 1, 5, 6, 7, 0, 0, 0]]
      [[0, 0, 1, 1]] [[1, 0, 0, 0, 1, 0, 0, 0, 1, 0, 0, 0, 0, 0, 0]] (1/2) =
     Inr ([[1, 0, 0, 0, 1, 0, 0, 0, 1, 0, 0, 0, 0, 0, 0]], [[0, 0, 1, 1]]) \<and>
   [[0, 0, 1, 1]] \<noteq> [[1, 0, 0, 0, 1, 0, 0, 0, 1, 5, 6, 7, 0, 0, (0::real)]]"
  by (simp add: evaluate_matches_def match_lists_def argmax_axis1_def np_argmax_def np_row_def np_stack_def Let_def)

end
